theory Spec2Isabelle
  imports Complex_Main "HOL-Library.Multiset" "HOL-Library.Sublist" "HOL-Library.Log_Nat"
begin

section \<open>Data model of the property page\<close>

text \<open>
  Modelled from the spec: the types \<open>Tenant\<close>, \<open>Property\<close>, \<open>Expense\<close> and \<open>Money\<close>, which
  the page imports from \<open>types/\<close> and which are not among the sources. The records hold
  the fields the page reads: a tenant has an id and a display name; money is an amount
  in minor units with a currency code; an expense has a date and an amount of money; a
  property has an id, a name, a monthly revenue, its expenses and its tenants. Ids are
  integers, compared by \<open>includes\<close> and \<open>===\<close>. An amount is a JavaScript number, the value
  \<open>Number\<close> yields for the field.
\<close>

subsection \<open>JavaScript numbers\<close>

text \<open>
  A JavaScript number is an IEEE-754 double: \<open>NaN\<close>, an infinity (\<open>Infinity True\<close> is the
  negative one) or a finite double, written \<open>Double r\<close> with its exact value \<open>r\<close>. Negative
  zero is written \<open>Double 0\<close> like zero: a sum that starts from \<open>0\<close> is never negative zero,
  and negative zero adds like zero.
\<close>

datatype jsnum = NaN | Infinity bool | Double rat

definition pow2 :: "int \<Rightarrow> rat" where
  "pow2 k = (if 0 \<le> k then 2 ^ nat k else 1 / 2 ^ nat (- k))"

text \<open>The binary exponent of a non-zero rational: \<open>pow2 e \<le> \<bar>r\<bar> < pow2 (e + 1)\<close>.\<close>

definition exponent_of :: "rat \<Rightarrow> int" where
  "exponent_of r =
     (let (p, q) = quotient_of \<bar>r\<bar>; k = bitlen p - bitlen q
      in if pow2 k \<le> \<bar>r\<bar> then k else k - 1)"

definition round_half_even :: "rat \<Rightarrow> int" where
  "round_half_even x =
     (let f = \<lfloor>x\<rfloor>; d = x - of_int f
      in if d < 1 / 2 then f
         else if 1 / 2 < d then f + 1
         else if even f then f else f + 1)"

text \<open>
  Rounding an exact result to a double, to nearest with ties to the even significand:
  53 significant bits, the spacing of the subnormal range below \<open>pow2 (- 1022)\<close>, and an
  infinity when the rounded value reaches \<open>pow2 1024\<close>.
\<close>

definition round_double :: "rat \<Rightarrow> jsnum" where
  "round_double r =
     (if r = 0 then Double 0
      else let e = max (exponent_of r) (- 1022);
               ulp = pow2 (e - 52);
               y = of_int (round_half_even (r / ulp)) * ulp
           in if pow2 1024 \<le> \<bar>y\<bar> then Infinity (r < 0) else Double y)"

text \<open>The operator \<open>+\<close> on numbers.\<close>

fun num_add :: "jsnum \<Rightarrow> jsnum \<Rightarrow> jsnum" where
  "num_add NaN b = NaN"
| "num_add a NaN = NaN"
| "num_add (Infinity s) (Infinity s') = (if s = s' then Infinity s else NaN)"
| "num_add (Infinity s) (Double y) = Infinity s"
| "num_add (Double x) (Infinity s) = Infinity s"
| "num_add (Double x) (Double y) = round_double (x + y)"

text \<open>
  For stating results: the exact value of a finite double, and whether a number is a
  finite double with an integer value.
\<close>

fun exact_value :: "jsnum \<Rightarrow> rat" where
  "exact_value (Double r) = r"
| "exact_value _ = 0"

fun is_integer :: "jsnum \<Rightarrow> bool" where
  "is_integer (Double r) = (r = of_int \<lfloor>r\<rfloor>)"
| "is_integer _ = False"

subsection \<open>Records\<close>

record tenant =
  tenant_id :: int
  tenant_name :: string

record money =
  amount :: jsnum
  currency :: string

text \<open>
  A JavaScript \<open>Date\<close> as the page reads it: \<open>getMonth()\<close> and \<open>getFullYear()\<close> in local
  time. \<open>new Date(s)\<close> on a string that does not parse is the invalid date, whose getters
  return \<open>NaN\<close>; \<open>new Date()\<close> is always a valid date.
\<close>

datatype jsdate = InvalidDate | LocalDate int int

record expense =
  date :: jsdate
  expense_amount :: money

record property =
  property_id :: int
  property_name :: string
  monthly_revenue :: "money option"
  property_expenses :: "expense list"
  property_tenants :: "tenant list"

text \<open>A number-valued getter returns \<open>None\<close> for \<open>NaN\<close>.\<close>

fun getFullYear :: "jsdate \<Rightarrow> int option" where
  "getFullYear InvalidDate = None"
| "getFullYear (LocalDate y m) = Some y"

fun getMonth :: "jsdate \<Rightarrow> int option" where
  "getMonth InvalidDate = None"
| "getMonth (LocalDate y m) = Some m"

text \<open>\<open>a === b\<close> on numbers: \<open>NaN\<close> is equal to nothing, itself included.\<close>

fun strict_eq :: "int option \<Rightarrow> int option \<Rightarrow> bool" where
  "strict_eq (Some a) (Some b) = (a = b)"
| "strict_eq _ _ = False"

text \<open>\<open>Array.prototype.includes\<close> (SameValueZero, which on integers is equality).\<close>

fun includes_arr :: "int list \<Rightarrow> int \<Rightarrow> bool" where
  "includes_arr [] x = False"
| "includes_arr (y # ys) x = (y = x \<or> includes_arr ys x)"

text \<open>\<open>a ?? b\<close>: the left operand unless it is \<open>null\<close> or \<open>undefined\<close>.\<close>

fun nullish :: "'a option \<Rightarrow> 'a \<Rightarrow> 'a" where
  "nullish None d = d"
| "nullish (Some v) d = v"

section \<open>Derived values of the page\<close>

text \<open>
  \<open>tenantOptions\<close>: empty while either fetch has no data, otherwise the fetched tenants
  whose id is not among the ids of \<open>property.tenants\<close>.
\<close>

definition tenantOptions :: "tenant list option \<Rightarrow> property option \<Rightarrow> tenant list" where
  "tenantOptions tenants prop =
     (case (tenants, prop) of
        (Some ts, Some p) \<Rightarrow>
          (let tenantIds = map tenant_id (property_tenants p)
           in filter (\<lambda>tenant. \<not> includes_arr tenantIds (tenant_id tenant)) ts)
      | _ \<Rightarrow> [])"

definition revenue :: "property option \<Rightarrow> money option" where
  "revenue prop = (case prop of None \<Rightarrow> None | Some p \<Rightarrow> monthly_revenue p)"

text \<open>
  \<open>expenses\<close>: \<open>null\<close> without a property; otherwise the expenses of the current month
  and year are kept and their amounts added up from 0, left to right. The filter
  callback reads the clock (\<open>new Date()\<close>) once for every expense; \<open>clock i\<close> is the reading
  taken for the expense at index \<open>i\<close>.
\<close>

definition inCurrentMonth :: "jsdate \<Rightarrow> expense \<Rightarrow> bool" where
  "inCurrentMonth now e =
     (let expenseDate = date e; currentDate = now
      in strict_eq (getMonth expenseDate) (getMonth currentDate) \<and>
         strict_eq (getFullYear expenseDate) (getFullYear currentDate))"

fun filterCurrentMonth :: "(nat \<Rightarrow> jsdate) \<Rightarrow> nat \<Rightarrow> expense list \<Rightarrow> expense list" where
  "filterCurrentMonth clock i [] = []"
| "filterCurrentMonth clock i (e # es) =
     (if inCurrentMonth (clock i) e
      then e # filterCurrentMonth clock (Suc i) es
      else filterCurrentMonth clock (Suc i) es)"

definition expenses :: "property option \<Rightarrow> (nat \<Rightarrow> jsdate) \<Rightarrow> jsnum option" where
  "expenses prop clock =
     (case prop of
        None \<Rightarrow> None
      | Some p \<Rightarrow>
          Some (foldl (\<lambda>acc e. num_add acc (amount (expense_amount e))) (Double 0)
                  (filterCurrentMonth clock 0 (property_expenses p))))"

record chart_entry =
  name :: string
  val :: jsnum
  fill :: string

text \<open>\<open>chartData\<close>; the field \<open>val\<close> is the source's \<open>value\<close>.\<close>

definition chartData :: "money option \<Rightarrow> jsnum option \<Rightarrow> chart_entry list" where
  "chartData revenue_v expenses_v =
     [\<lparr>name = ''Revenue'', val = nullish (map_option amount revenue_v) (Double 0),
       fill = ''#00B87C''\<rparr>,
      \<lparr>name = ''Expenses'', val = nullish expenses_v (Double 0), fill = ''#FF5C93''\<rparr>]"

text \<open>
  Examples (months count from 0): a clock that reads April 2024 at every call and one
  that reads March 2024 at the first call and April 2024 from then on, two expenses of
  April and March 2024 and two properties holding them in either order, and two
  properties holding the April amounts \<open>2^53\<close>, 1 and 1 in two orders.
\<close>

definition april_clock :: "nat \<Rightarrow> jsdate" where
  "april_clock i = LocalDate 2024 3"

definition turning_clock :: "nat \<Rightarrow> jsdate" where
  "turning_clock i = (if i = 0 then LocalDate 2024 2 else LocalDate 2024 3)"

definition april_100 :: expense where
  "april_100 =
     \<lparr>date = LocalDate 2024 3, expense_amount = \<lparr>amount = Double 100, currency = ''USD''\<rparr>\<rparr>"

definition march_50 :: expense where
  "march_50 =
     \<lparr>date = LocalDate 2024 2, expense_amount = \<lparr>amount = Double 50, currency = ''USD''\<rparr>\<rparr>"

definition house :: property where
  "house = \<lparr>property_id = 3, property_name = ''House'', monthly_revenue = None,
            property_expenses = [april_100, march_50], property_tenants = []\<rparr>"

definition house_swapped :: property where
  "house_swapped = house\<lparr>property_expenses := [march_50, april_100]\<rparr>"

definition april_of :: "rat \<Rightarrow> expense" where
  "april_of r =
     \<lparr>date = LocalDate 2024 3, expense_amount = \<lparr>amount = Double r, currency = ''USD''\<rparr>\<rparr>"

definition ledger_big_first :: property where
  "ledger_big_first = house\<lparr>property_expenses :=
     [april_of 9007199254740992, april_of 1, april_of 1]\<rparr>"

definition ledger_big_last :: property where
  "ledger_big_last = house\<lparr>property_expenses :=
     [april_of 1, april_of 1, april_of 9007199254740992]\<rparr>"

section \<open>The add and remove handlers\<close>

text \<open>
  The page state the handlers read and write: the fetched property and the error flag
  of its fetch, the route parameter \<open>id\<close>, the React state \<open>selectedTenant\<close>, the \<open>select\<close> element behind \<open>selectRef\<close>
  (\<open>None\<close> when \<open>selectRef.current\<close> is \<open>null\<close>, otherwise the element's value) and the two
  disclosure flags. \<open>trace\<close> lists the calls the handlers make, in the order they make
  them; \<open>inflight\<close> holds the handlers suspended at their \<open>await\<close>, oldest first, each with
  the \<open>selectedTenant\<close> of its closure; \<open>thrown\<close> collects what a handler throws.
\<close>

datatype js_error = TypeError

datatype api_result = Resolved | Rejected string

datatype effect =
    AddTenant int int
  | RemoveTenant string int
  | ShowSuccess string string
  | ShowError string string
  | SetSelectedTenant "tenant option"
  | Mutate
  | SetSelectValue string
  | CloseConfirmAddModal
  | CloseConfirmRemoveModal

datatype pending = AwaitAdd tenant | AwaitRemove tenant

record page =
  property_v :: "property option"
  isPropertyError :: bool
  id_param :: "string option"
  selectedTenant :: "tenant option"
  selectRef :: "string option"
  isConfirmAddModalOpen :: bool
  isConfirmRemoveModalOpen :: bool
  trace :: "effect list"
  inflight :: "pending list"
  thrown :: "js_error list"

definition showSuccess :: "string \<Rightarrow> string \<Rightarrow> page \<Rightarrow> page" where
  "showSuccess title message s = s\<lparr>trace := trace s @ [ShowSuccess title message]\<rparr>"

definition showError :: "string \<Rightarrow> string \<Rightarrow> page \<Rightarrow> page" where
  "showError title message s = s\<lparr>trace := trace s @ [ShowError title message]\<rparr>"

definition setSelectedTenant :: "tenant option \<Rightarrow> page \<Rightarrow> page" where
  "setSelectedTenant v s = s\<lparr>selectedTenant := v, trace := trace s @ [SetSelectedTenant v]\<rparr>"

text \<open>\<open>mutate()\<close> asks for a refetch; the fetched data arrives in a later event.\<close>

definition mutate :: "page \<Rightarrow> page" where
  "mutate s = s\<lparr>trace := trace s @ [Mutate]\<rparr>"

definition closeConfirmAddModal :: "page \<Rightarrow> page" where
  "closeConfirmAddModal s =
     s\<lparr>isConfirmAddModalOpen := False, trace := trace s @ [CloseConfirmAddModal]\<rparr>"

definition closeConfirmRemoveModal :: "page \<Rightarrow> page" where
  "closeConfirmRemoveModal s =
     s\<lparr>isConfirmRemoveModalOpen := False, trace := trace s @ [CloseConfirmRemoveModal]\<rparr>"

text \<open>Truthiness of the route parameter, a string or \<open>undefined\<close>: the empty string is falsy.\<close>

fun truthy_str :: "string option \<Rightarrow> bool" where
  "truthy_str None = False"
| "truthy_str (Some v) = (v \<noteq> [])"

text \<open>
  \<open>onTenantAddSubmit\<close> up to its \<open>await\<close>: under the guard
  \<open>property && selectedTenant && selectRef.current\<close> the API call is made and the handler
  is suspended; otherwise the handler returns at once.
\<close>

definition onTenantAddSubmit :: "page \<Rightarrow> page" where
  "onTenantAddSubmit s =
     (case (property_v s, selectedTenant s, selectRef s) of
        (Some p, Some t, Some el) \<Rightarrow>
          s\<lparr>trace := trace s @ [AddTenant (property_id p) (tenant_id t)],
            inflight := inflight s @ [AwaitAdd t]\<rparr>
      | _ \<Rightarrow> s)"

text \<open>
  The rest of \<open>onTenantAddSubmit\<close>, run when the call settles: \<open>showSuccess\<close> after a
  resolved call, \<open>showError\<close> in the \<open>catch\<close>, then the \<open>finally\<close> block. The assignment
  \<open>selectRef.current.value = ''\<close> reads the ref again and throws a \<open>TypeError\<close> when the
  element is gone, which leaves the block.
\<close>

definition addSettled :: "api_result \<Rightarrow> tenant \<Rightarrow> page \<Rightarrow> page" where
  "addSettled r t s =
     (let s1 = (case r of
                  Resolved \<Rightarrow>
                    showSuccess ''Tenant added''
                      (tenant_name t @ '' was added to the property.'') s
                | Rejected e \<Rightarrow>
                    showError ''Error''
                      ''An error occured while trying to add the tenant to the property.'' s);
          s2 = setSelectedTenant None s1;
          s3 = mutate s2
      in case selectRef s3 of
           None \<Rightarrow> s3\<lparr>thrown := thrown s3 @ [TypeError]\<rparr>
         | Some el \<Rightarrow>
             closeConfirmAddModal
               (s3\<lparr>selectRef := Some [], trace := trace s3 @ [SetSelectValue []]\<rparr>))"

text \<open>\<open>onTenantRemoveSubmit\<close> up to its \<open>await\<close>, under the guard \<open>selectedTenant && id\<close>.\<close>

definition onTenantRemoveSubmit :: "page \<Rightarrow> page" where
  "onTenantRemoveSubmit s =
     (case (selectedTenant s, id_param s) of
        (Some t, Some i) \<Rightarrow>
          (if truthy_str (Some i)
           then s\<lparr>trace := trace s @ [RemoveTenant i (tenant_id t)],
                  inflight := inflight s @ [AwaitRemove t]\<rparr>
           else s)
      | _ \<Rightarrow> s)"

definition removeSettled :: "api_result \<Rightarrow> tenant \<Rightarrow> page \<Rightarrow> page" where
  "removeSettled r t s =
     (let s1 = (case r of
                  Resolved \<Rightarrow>
                    showSuccess ''Tenant removed''
                      (tenant_name t @ '' was removed from the property'') s
                | Rejected e \<Rightarrow>
                    showError ''Error''
                      ''An error occurred while trying to remove the tenant from the property'' s);
          s2 = setSelectedTenant None s1;
          s3 = closeConfirmRemoveModal s2
      in mutate s3)"

text \<open>
  A refetch of the property fails while a call is pending: \<open>isPropertyError\<close> becomes
  true, the block rendered under \<open>!isPropertyError && property\<close>, which holds the select,
  is taken off the page, and \<open>selectRef.current\<close> becomes \<open>null\<close>.
\<close>

definition propertyFetchFails :: "page \<Rightarrow> page" where
  "propertyFetchFails s = s\<lparr>isPropertyError := True, selectRef := None\<rparr>"

text \<open>The oldest pending call settles with result \<open>r\<close> and its handler runs to the end.\<close>

definition settle :: "api_result \<Rightarrow> page \<Rightarrow> page" where
  "settle r s =
     (case inflight s of
        [] \<Rightarrow> s
      | AwaitAdd t # ks \<Rightarrow> addSettled r t (s\<lparr>inflight := ks\<rparr>)
      | AwaitRemove t # ks \<Rightarrow> removeSettled r t (s\<lparr>inflight := ks\<rparr>))"

text \<open>
  The workflow states of the specification, read off the page state: a call in flight
  is \<open>Submitting\<close>, a chosen tenant with no call in flight is \<open>Selected\<close>, otherwise \<open>Idle\<close>.
\<close>

datatype workflow = Idle | Selected | Submitting

definition workflowState :: "page \<Rightarrow> workflow" where
  "workflowState s =
     (if inflight s \<noteq> [] then Submitting
      else if selectedTenant s \<noteq> None then Selected
      else Idle)"

text \<open>\<open>a\<close> is in the list and \<open>b\<close> occurs somewhere after its first occurrence.\<close>

fun occurs_before :: "'a \<Rightarrow> 'a \<Rightarrow> 'a list \<Rightarrow> bool" where
  "occurs_before a b [] = False"
| "occurs_before a b (x # xs) = (if x = a then b \<in> set xs else occurs_before a b xs)"


text \<open>A page with the tenant Ann chosen for the property Villa, used in the examples.\<close>

definition ann :: tenant where
  "ann = \<lparr>tenant_id = 1, tenant_name = ''Ann''\<rparr>"

definition villa :: property where
  "villa = \<lparr>property_id = 7, property_name = ''Villa'', monthly_revenue = None,
            property_expenses = [], property_tenants = []\<rparr>"

definition ann_chosen :: page where
  "ann_chosen =
     \<lparr>property_v = Some villa, isPropertyError = False, id_param = Some ''7'',
      selectedTenant = Some ann, selectRef = Some ''1'',
      isConfirmAddModalOpen = True, isConfirmRemoveModalOpen = True,
      trace = [], inflight = [], thrown = []\<rparr>"

section \<open>The edit form\<close>

text \<open>
  \<open>String.prototype.split\<close> with a one-character separator: the pieces between the
  occurrences of the separator, empty pieces included; the empty string gives one
  empty piece. \<open>splitBy\<close> cuts at every character that satisfies \<open>P\<close>.
\<close>

fun splitBy :: "(char \<Rightarrow> bool) \<Rightarrow> string \<Rightarrow> string list" where
  "splitBy P [] = [[]]"
| "splitBy P (c # cs) =
     (if P c then [] # splitBy P cs
      else (case splitBy P cs of [] \<Rightarrow> [[c]] | w # ws \<Rightarrow> (c # w) # ws))"

definition split_str :: "string \<Rightarrow> char \<Rightarrow> string list" where
  "split_str str sep = splitBy (\<lambda>c. c = sep) str"

text \<open>Indexing an array: \<open>undefined\<close> (\<open>None\<close>) beyond its end.\<close>

fun at_index :: "'a list \<Rightarrow> nat \<Rightarrow> 'a option" where
  "at_index [] n = None"
| "at_index (x # xs) 0 = Some x"
| "at_index (x # xs) (Suc n) = at_index xs n"

record form_values =
  first_name :: "string option"
  last_name :: "string option"

definition defaultValues :: form_values where
  "defaultValues = \<lparr>first_name = Some [], last_name = Some []\<rparr>"

text \<open>The object passed to \<open>reset\<close> for a tenant.\<close>

definition resetValues :: "tenant \<Rightarrow> form_values" where
  "resetValues t =
     \<lparr>first_name = at_index (split_str (tenant_name t) CHR '' '') 0,
      last_name = at_index (split_str (tenant_name t) CHR '' '') 1\<rparr>"

text \<open>The effect that pre-populates the form: nothing happens without a tenant.\<close>

definition prepopulate :: "tenant option \<Rightarrow> form_values \<Rightarrow> form_values" where
  "prepopulate tenant_v form =
     (case tenant_v of None \<Rightarrow> form | Some t \<Rightarrow> resetValues t)"

text \<open>
  The form library's \<open>required\<close> rule, which both inputs carry: a field passes when it
  holds a non-empty string. \<open>handleSubmit\<close> calls \<open>onSubmit\<close> with the values and the
  tenant's id (\<open>tenant?.id ?? 0\<close>) only when every rule passes.
\<close>

fun required_ok :: "string option \<Rightarrow> bool" where
  "required_ok None = False"
| "required_ok (Some v) = (v \<noteq> [])"

definition isValid :: "form_values \<Rightarrow> bool" where
  "isValid form = (required_ok (first_name form) \<and> required_ok (last_name form))"

definition handleSubmit :: "tenant option \<Rightarrow> form_values \<Rightarrow> (string \<times> string \<times> int) option" where
  "handleSubmit tenant_v form =
     (case (first_name form, last_name form) of
        (Some f, Some l) \<Rightarrow>
          (if isValid form then Some (f, l, nullish (map_option tenant_id tenant_v) 0) else None)
      | _ \<Rightarrow> None)"

text \<open>
  The split as the specification words it, for comparison with \<open>resetValues\<close>: the
  whitespace-delimited tokens of a name, that is its maximal runs of characters other
  than space, tab, line feed and carriage return.
\<close>

definition isWhitespace :: "char \<Rightarrow> bool" where
  "isWhitespace c = (c = CHR '' '' \<or> c = CHR 0x09 \<or> c = CHR 0x0A \<or> c = CHR 0x0D)"

definition spec_tokens :: "string \<Rightarrow> string list" where
  "spec_tokens str = filter (\<lambda>w. w \<noteq> []) (splitBy isWhitespace str)"

section \<open>Candidate tenants\<close>

lemma includes_set: "includes_arr ys x \<longleftrightarrow> x \<in> set ys"
  by (induction ys) auto

lemma tenantOptions_filter:
  "tenantOptions (Some ts) (Some p) =
     filter (\<lambda>t. tenant_id t \<notin> tenant_id ` set (property_tenants p)) ts"
  by (simp add: tenantOptions_def includes_set)

text \<open>
  C1. With both fetches loaded, \<open>tenantOptions\<close> is the list of the fetched tenants
  whose id does not occur among the ids of \<open>property.tenants\<close>, in their order: a tenant
  is in the result exactly when it is fetched and its id is not taken, no id of
  \<open>property.tenants\<close> occurs in the result, a duplicate-free input (by value or by id)
  gives a duplicate-free result, computing the candidates again from the result and
  the same property changes nothing, and equal inputs give equal results.
\<close>

theorem tenantOptions_difference:
  "tenantOptions (Some ts) (Some p) =
     filter (\<lambda>t. tenant_id t \<notin> set (map tenant_id (property_tenants p))) ts
   \<and> set (tenantOptions (Some ts) (Some p)) =
       {t \<in> set ts. tenant_id t \<notin> tenant_id ` set (property_tenants p)}
   \<and> (\<forall>t \<in> set (tenantOptions (Some ts) (Some p)).
         \<forall>u \<in> set (property_tenants p). tenant_id t \<noteq> tenant_id u)
   \<and> (distinct ts \<longrightarrow> distinct (tenantOptions (Some ts) (Some p)))
   \<and> (distinct (map tenant_id ts) \<longrightarrow>
        distinct (map tenant_id (tenantOptions (Some ts) (Some p))))
   \<and> tenantOptions (Some (tenantOptions (Some ts) (Some p))) (Some p) =
       tenantOptions (Some ts) (Some p)
   \<and> (ts' = ts \<and> p' = p \<longrightarrow>
        tenantOptions (Some ts') (Some p') = tenantOptions (Some ts) (Some p))"
proof -
  let ?taken = "tenant_id ` set (property_tenants p)"
  have eq: "tenantOptions (Some ts) (Some p) = filter (\<lambda>t. tenant_id t \<notin> ?taken) ts"
    by (rule tenantOptions_filter)
  have again: "tenantOptions (Some (filter (\<lambda>t. tenant_id t \<notin> ?taken) ts)) (Some p) =
      filter (\<lambda>t. tenant_id t \<notin> ?taken) ts"
    by (simp add: tenantOptions_filter)
  have ids: "distinct (map tenant_id ts) \<Longrightarrow>
      distinct (map tenant_id (filter (\<lambda>t. tenant_id t \<notin> ?taken) ts))"
    by (rule distinct_map_filter)
  show ?thesis
    using again ids by (auto simp: eq)
qed

theorem tenantOptions_difference_witness:
  "tenantOptions
     (Some [\<lparr>tenant_id = 1, tenant_name = ''Ann''\<rparr>, \<lparr>tenant_id = 2, tenant_name = ''Bob''\<rparr>,
            \<lparr>tenant_id = 3, tenant_name = ''Cy''\<rparr>])
     (Some \<lparr>property_id = 7, property_name = ''Villa'', monthly_revenue = None,
            property_expenses = [],
            property_tenants = [\<lparr>tenant_id = 2, tenant_name = ''Bob''\<rparr>]\<rparr>)
   = [\<lparr>tenant_id = 1, tenant_name = ''Ann''\<rparr>, \<lparr>tenant_id = 3, tenant_name = ''Cy''\<rparr>]
   \<and> distinct (map tenant_id
       [\<lparr>tenant_id = 1, tenant_name = ''Ann''\<rparr>, \<lparr>tenant_id = 2, tenant_name = ''Bob''\<rparr>,
        \<lparr>tenant_id = 3, tenant_name = ''Cy''\<rparr>])"
  using tenantOptions_difference
    [of "[\<lparr>tenant_id = 1, tenant_name = ''Ann''\<rparr>, \<lparr>tenant_id = 2, tenant_name = ''Bob''\<rparr>,
          \<lparr>tenant_id = 3, tenant_name = ''Cy''\<rparr>]"
        "\<lparr>property_id = 7, property_name = ''Villa'', monthly_revenue = None,
          property_expenses = [],
          property_tenants = [\<lparr>tenant_id = 2, tenant_name = ''Bob''\<rparr>]\<rparr>"]
  by simp

section \<open>Expense total and chart series\<close>

text \<open>\<open>exponent_of\<close> is the binary exponent: the value lies in the binade it names.\<close>

lemma pow2_powi: "pow2 k = 2 powi k"
  by (simp add: pow2_def power_int_def field_simps)

lemma pow2_pos: "0 < pow2 k"
  by (simp add: pow2_powi)

lemma pow2_diff: "pow2 (a - b) = pow2 a / pow2 b"
  by (simp add: pow2_powi power_int_diff)

lemma pow2_nat: "0 \<le> k \<Longrightarrow> pow2 k = 2 ^ nat k"
  by (simp add: pow2_def)

lemma exponent_of_bounds:
  assumes "r \<noteq> 0"
  shows "pow2 (exponent_of r) \<le> \<bar>r\<bar>" and "\<bar>r\<bar> < pow2 (exponent_of r + 1)"
proof -
  obtain p q where pq: "quotient_of \<bar>r\<bar> = (p, q)"
    by (cases "quotient_of \<bar>r\<bar>")
  then have q: "0 < q" and r: "\<bar>r\<bar> = of_int p / of_int q"
    by (simp_all add: quotient_of_denom_pos quotient_of_div)
  from assms have "0 < \<bar>r\<bar>" by simp
  with q r have p: "0 < p"
    by (simp add: zero_less_divide_iff)
  define k where "k = bitlen p - bitlen q"
  from p have bp: "1 \<le> bitlen p" by (simp add: bitlen_alt_def)
  from q have bq: "1 \<le> bitlen q" by (simp add: bitlen_alt_def)
  from bitlen_bounds [OF p] have "2 ^ nat (bitlen p - 1) \<le> p" "p < 2 ^ nat (bitlen p)"
    by simp_all
  then have "rat_of_int (2 ^ nat (bitlen p - 1)) \<le> of_int p"
    "rat_of_int p < of_int (2 ^ nat (bitlen p))"
    by (simp_all only: of_int_le_iff of_int_less_iff)
  with bp have P: "pow2 (bitlen p - 1) \<le> of_int p" "of_int p < pow2 (bitlen p)"
    by (simp_all add: pow2_nat)
  from bitlen_bounds [OF q] have "2 ^ nat (bitlen q - 1) \<le> q" "q < 2 ^ nat (bitlen q)"
    by simp_all
  then have "rat_of_int (2 ^ nat (bitlen q - 1)) \<le> of_int q"
    "rat_of_int q < of_int (2 ^ nat (bitlen q))"
    by (simp_all only: of_int_le_iff of_int_less_iff)
  with bq have Q: "pow2 (bitlen q - 1) \<le> of_int q" "of_int q < pow2 (bitlen q)"
    by (simp_all add: pow2_nat)
  have qpos: "0 < rat_of_int q" using q by simp
  have ppos: "0 < rat_of_int p" using p by simp
  have "pow2 (k - 1) = pow2 (bitlen p - 1) / pow2 (bitlen q)"
    unfolding k_def pow2_diff [symmetric] by (simp add: algebra_simps)
  also have "\<dots> \<le> of_int p / pow2 (bitlen q)"
    by (rule divide_right_mono [OF P(1)]) (rule less_imp_le [OF pow2_pos])
  also have "\<dots> \<le> of_int p / of_int q"
    by (rule divide_left_mono [OF less_imp_le [OF Q(2)] less_imp_le [OF ppos]])
       (rule mult_pos_pos [OF pow2_pos qpos])
  finally have lower: "pow2 (k - 1) \<le> \<bar>r\<bar>" by (simp add: r)
  have "of_int p / of_int q < pow2 (bitlen p) / of_int q"
    by (rule divide_strict_right_mono [OF P(2) qpos])
  also have "\<dots> \<le> pow2 (bitlen p) / pow2 (bitlen q - 1)"
    by (rule divide_left_mono [OF Q(1) less_imp_le [OF pow2_pos]])
       (rule mult_pos_pos [OF qpos pow2_pos])
  also have "\<dots> = pow2 (k + 1)"
    unfolding k_def pow2_diff [symmetric] by (simp add: algebra_simps)
  finally have upper: "\<bar>r\<bar> < pow2 (k + 1)" by (simp add: r)
  have e: "exponent_of r = (if pow2 k \<le> \<bar>r\<bar> then k else k - 1)"
    by (simp add: exponent_of_def pq k_def Let_def)
  from lower upper show "pow2 (exponent_of r) \<le> \<bar>r\<bar>"
    by (simp add: e)
  from lower upper show "\<bar>r\<bar> < pow2 (exponent_of r + 1)"
    by (auto simp: e)
qed

text \<open>An integer below \<open>2^53\<close> in absolute value is a double, and rounding leaves it.\<close>

lemma round_half_even_int: "round_half_even (of_int w) = w"
  by (simp add: round_half_even_def)

lemma bitlen_small:
  assumes "0 < x" "x < 2 ^ 53"
  shows "1 \<le> bitlen x" "bitlen x \<le> 53"
proof -
  from assms(1) have b: "2 ^ nat (bitlen x - 1) \<le> x" "x < 2 ^ nat (bitlen x)"
    using bitlen_bounds [of x] by simp_all
  show "1 \<le> bitlen x"
  proof (rule ccontr)
    assume "\<not> 1 \<le> bitlen x"
    then have "nat (bitlen x) = 0" by simp
    with b(2) assms(1) show False by simp
  qed
  show "bitlen x \<le> 53"
  proof (rule ccontr)
    assume "\<not> bitlen x \<le> 53"
    then have "53 \<le> nat (bitlen x - 1)" by simp
    then have "(2::int) ^ 53 \<le> 2 ^ nat (bitlen x - 1)"
      by (rule power_increasing) simp
    with b(1) assms(2) show False by simp
  qed
qed

lemma exponent_of_int_small:
  assumes "z \<noteq> 0" "\<bar>z\<bar> < 2 ^ 53"
  shows "- 1 \<le> exponent_of (of_int z)" "exponent_of (of_int z) \<le> 52"
proof -
  have q: "quotient_of \<bar>rat_of_int z\<bar> = (\<bar>z\<bar>, 1)"
    by (simp flip: of_int_abs)
  have one: "bitlen 1 = 1"
    by (simp add: bitlen_alt_def)
  from assms have "0 < \<bar>z\<bar>" by simp
  from bitlen_small [OF this assms(2)] have "1 \<le> bitlen \<bar>z\<bar>" "bitlen \<bar>z\<bar> \<le> 53" .
  then show "- 1 \<le> exponent_of (of_int z)" "exponent_of (of_int z) \<le> 52"
    by (simp_all add: exponent_of_def q one Let_def)
qed

lemma round_double_int:
  assumes "\<bar>z\<bar> < 2 ^ 53"
  shows "round_double (of_int z) = Double (of_int z)"
proof (cases "z = 0")
  case True
  then show ?thesis by (simp add: round_double_def)
next
  case False
  define e where "e = max (exponent_of (rat_of_int z)) (- 1022)"
  define n where "n = nat (52 - e)"
  from exponent_of_int_small [OF False assms] have e: "e \<le> 52"
    by (simp add: e_def)
  then have ulp: "pow2 (e - 52) = 1 / 2 ^ n"
    by (cases "e = 52") (simp_all add: pow2_def n_def)
  have "rat_of_int z / pow2 (e - 52) = of_int (z * 2 ^ n)"
    by (simp add: ulp)
  then have r: "round_half_even (rat_of_int z / pow2 (e - 52)) = z * 2 ^ n"
    by (simp only: round_half_even_int)
  have y: "of_int (z * 2 ^ n) * pow2 (e - 52) = rat_of_int z"
    by (simp add: ulp)
  have "\<bar>rat_of_int z\<bar> < 2 ^ 53"
    using assms by (metis of_int_abs of_int_less_numeral_power_cancel_iff)
  also have "(2::rat) ^ 53 \<le> 2 ^ 1024"
    by (rule power_increasing) simp_all
  finally have small: "\<not> pow2 1024 \<le> \<bar>rat_of_int z\<bar>"
    by (simp add: pow2_def)
  from False show ?thesis
    unfolding round_double_def Let_def e_def [symmetric] r y
    using small by simp
qed

lemma is_integerE:
  assumes "is_integer x"
  obtains z where "x = Double (of_int z)"
  using assms by (cases x) auto

lemma foldl_num_add_exact:
  assumes "\<forall>x \<in> set xs. is_integer x"
    and "\<bar>rat_of_int a\<bar> + (\<Sum>x\<leftarrow>xs. \<bar>exact_value x\<bar>) < 2 ^ 53"
  shows "foldl num_add (Double (of_int a)) xs = Double (of_int a + (\<Sum>x\<leftarrow>xs. exact_value x))"
  using assms
proof (induction xs arbitrary: a)
  case Nil
  show ?case by simp
next
  case (Cons x xs)
  from Cons.prems(1) obtain z where x: "x = Double (of_int z)"
    by (auto elim: is_integerE)
  have nonneg: "0 \<le> (\<Sum>x\<leftarrow>xs. \<bar>exact_value x\<bar>)"
    by (rule sum_list_nonneg) auto
  from Cons.prems(2) have bound: "\<bar>rat_of_int a\<bar> + \<bar>rat_of_int z\<bar> + (\<Sum>x\<leftarrow>xs. \<bar>exact_value x\<bar>) < 2 ^ 53"
    by (simp add: x)
  have "\<bar>rat_of_int (a + z)\<bar> \<le> \<bar>rat_of_int a\<bar> + \<bar>rat_of_int z\<bar>"
    by simp
  with bound nonneg have az: "\<bar>rat_of_int (a + z)\<bar> < 2 ^ 53" and
    rest: "\<bar>rat_of_int (a + z)\<bar> + (\<Sum>x\<leftarrow>xs. \<bar>exact_value x\<bar>) < 2 ^ 53"
    by linarith+
  from az have "\<bar>a + z\<bar> < 2 ^ 53"
    by (metis of_int_abs of_int_less_numeral_power_cancel_iff)
  then have step: "num_add (Double (of_int a)) x = Double (of_int (a + z))"
    using round_double_int [of "a + z"] by (simp add: x)
  from Cons.prems(1) have "\<forall>x \<in> set xs. is_integer x" by simp
  from Cons.IH [OF this rest]
  have "foldl num_add (Double (of_int (a + z))) xs =
      Double (of_int (a + z) + (\<Sum>x\<leftarrow>xs. exact_value x))" .
  moreover have "foldl num_add (Double (of_int a)) (x # xs) =
      foldl num_add (Double (of_int (a + z))) xs"
    by (simp only: foldl_Cons step)
  ultimately show ?case
    by (simp add: x add.assoc)
qed

lemma foldl_amounts:
  "foldl (\<lambda>acc e. num_add acc (amount (expense_amount e))) a es =
     foldl num_add a (map (\<lambda>e. amount (expense_amount e)) es)"
  by (induction es arbitrary: a) simp_all

lemma filterCurrentMonth_steady:
  assumes "\<forall>i < length es. clock (k + i) = LocalDate y m"
  shows "filterCurrentMonth clock k es =
     filter (\<lambda>e. getMonth (date e) = Some m \<and> getFullYear (date e) = Some y) es"
  using assms
proof (induction es arbitrary: k)
  case Nil
  show ?case by simp
next
  case (Cons e es)
  from Cons.prems have now: "clock k = LocalDate y m"
    by (metis add.right_neutral length_greater_0_conv list.distinct(1))
  have "\<forall>i < length es. clock (Suc k + i) = LocalDate y m"
  proof (intro allI impI)
    fix i assume "i < length es"
    then have "Suc i < length (e # es)" by simp
    with Cons.prems have "clock (k + Suc i) = LocalDate y m" by blast
    then show "clock (Suc k + i) = LocalDate y m" by simp
  qed
  from Cons.IH [OF this] have rest: "filterCurrentMonth clock (Suc k) es =
     filter (\<lambda>e. getMonth (date e) = Some m \<and> getFullYear (date e) = Some y) es" .
  have test: "inCurrentMonth (LocalDate y m) e \<longleftrightarrow>
      getMonth (date e) = Some m \<and> getFullYear (date e) = Some y"
    by (cases "date e") (auto simp: inCurrentMonth_def)
  show ?case
    by (simp add: now rest test)
qed

lemma sum_list_mset_cong:
  fixes f :: "'a \<Rightarrow> rat"
  assumes "mset xs = mset ys"
  shows "sum_list (map f xs) = sum_list (map f ys)"
proof -
  from assms have "mset (map f xs) = mset (map f ys)"
    by (metis mset_map)
  then have "sum_mset (mset (map f xs)) = sum_mset (mset (map f ys))"
    by (rule arg_cong)
  then show ?thesis
    by (simp only: sum_mset_sum_list)
qed

lemma expenses_steady:
  assumes "\<forall>i < length (property_expenses p). clock i = LocalDate y m"
  shows "expenses (Some p) clock =
     Some (foldl num_add (Double 0)
       (map (\<lambda>e. amount (expense_amount e))
          (filter (\<lambda>e. getMonth (date e) = Some m \<and> getFullYear (date e) = Some y)
             (property_expenses p))))"
proof -
  from assms have "\<forall>i < length (property_expenses p). clock (0 + i) = LocalDate y m"
    by simp
  then have "filterCurrentMonth clock 0 (property_expenses p) =
      filter (\<lambda>e. getMonth (date e) = Some m \<and> getFullYear (date e) = Some y)
        (property_expenses p)"
    by (rule filterCurrentMonth_steady)
  then show ?thesis
    by (simp add: expenses_def foldl_amounts)
qed

lemma foldl_num_add_integers:
  assumes "\<forall>e \<in> set es. is_integer (amount (expense_amount e))"
    and "(\<Sum>e\<leftarrow>es. \<bar>exact_value (amount (expense_amount e))\<bar>) < 2 ^ 53"
  shows "foldl num_add (Double 0) (map (\<lambda>e. amount (expense_amount e)) es) =
     Double (\<Sum>e\<leftarrow>es. exact_value (amount (expense_amount e)))"
proof -
  let ?xs = "map (\<lambda>e. amount (expense_amount e)) es"
  from assms(1) have "\<forall>x \<in> set ?xs. is_integer x" by simp
  moreover from assms(2)
  have "\<bar>rat_of_int 0\<bar> + (\<Sum>x\<leftarrow>?xs. \<bar>exact_value x\<bar>) < 2 ^ 53"
    by (simp add: comp_def)
  ultimately have "foldl num_add (Double (of_int 0)) ?xs =
      Double (of_int 0 + (\<Sum>x\<leftarrow>?xs. exact_value x))"
    by (rule foldl_num_add_exact)
  then show ?thesis by (simp add: comp_def)
qed

text \<open>
  The total depends on the order of the expenses: the April amounts \<open>2^53\<close>, 1, 1 add up
  to \<open>2^53\<close> in this order and to \<open>2^53 + 2\<close> with the large amount last, and the first
  total is not the sum of the amounts. And when the month turns between two clock
  readings, the March expense and the April expense are both counted.
\<close>

theorem expenses_order_counterexample:
  "mset (property_expenses ledger_big_last) = mset (property_expenses ledger_big_first)
   \<and> expenses (Some ledger_big_first) april_clock = Some (Double 9007199254740992)
   \<and> expenses (Some ledger_big_last) april_clock = Some (Double 9007199254740994)
   \<and> expenses (Some house_swapped) turning_clock = Some (Double 150)"
proof -
  have a: "round_double 9007199254740992 = Double 9007199254740992"
    by code_simp
  have b: "round_double 9007199254740993 = Double 9007199254740992"
    by code_simp
  have c: "round_double 1 = Double 1"
    using round_double_int [of 1] by simp
  have d: "round_double 2 = Double 2"
    using round_double_int [of 2] by simp
  have f: "round_double 50 = Double 50"
    using round_double_int [of 50] by simp
  have g: "round_double 150 = Double 150"
    using round_double_int [of 150] by simp
  have turning: "expenses (Some house_swapped) turning_clock = Some (Double 150)"
    by (simp add: expenses_def house_swapped_def house_def april_100_def march_50_def
        turning_clock_def inCurrentMonth_def f g)
  have e: "round_double 9007199254740994 = Double 9007199254740994"
    by code_simp
  have first: "expenses (Some ledger_big_first) april_clock = Some (Double 9007199254740992)"
    by (simp add: expenses_def ledger_big_first_def april_of_def april_clock_def
        inCurrentMonth_def a b)
  have last: "expenses (Some ledger_big_last) april_clock = Some (Double 9007199254740994)"
    by (simp add: expenses_def ledger_big_last_def april_of_def april_clock_def
        inCurrentMonth_def c d e)
  have perm: "mset (property_expenses ledger_big_last) =
      mset (property_expenses ledger_big_first)"
    by (simp add: ledger_big_last_def ledger_big_first_def)
  from perm first last turning show ?thesis by blast
qed

text \<open>
  C5 (amended). When every clock reading taken during the computation is in month \<open>m\<close>
  of year \<open>y\<close>, the expense total is the sum, added left to right from 0 in double
  arithmetic, of the amounts of exactly the expenses whose date has month \<open>m\<close> and year
  \<open>y\<close>; it is 0 for a property without expenses. When these amounts are integers whose
  absolute values add up to less than \<open>2^53\<close>, the total is their exact sum, and a
  property with the same expenses in another order has the same total.
\<close>

theorem expenses_current_month:
  assumes "\<forall>i < length (property_expenses p). clock i = LocalDate y m"
  shows "expenses (Some p) clock =
     Some (foldl num_add (Double 0)
       (map (\<lambda>e. amount (expense_amount e))
          (filter (\<lambda>e. getMonth (date e) = Some m \<and> getFullYear (date e) = Some y)
             (property_expenses p))))
   \<and> (property_expenses p = [] \<longrightarrow> expenses (Some p) clock = Some (Double 0))
   \<and> ((\<forall>e \<in> set (filter (\<lambda>e. getMonth (date e) = Some m \<and> getFullYear (date e) = Some y)
                    (property_expenses p)). is_integer (amount (expense_amount e)))
       \<and> (\<Sum>e\<leftarrow>filter (\<lambda>e. getMonth (date e) = Some m \<and> getFullYear (date e) = Some y)
                 (property_expenses p). \<bar>exact_value (amount (expense_amount e))\<bar>) < 2 ^ 53
       \<longrightarrow>
         expenses (Some p) clock =
           Some (Double (\<Sum>e\<leftarrow>filter (\<lambda>e. getMonth (date e) = Some m \<and>
                                        getFullYear (date e) = Some y)
                              (property_expenses p). exact_value (amount (expense_amount e))))
         \<and> (mset (property_expenses q) = mset (property_expenses p)
            \<and> (\<forall>i < length (property_expenses q). clock' i = LocalDate y m)
            \<longrightarrow> expenses (Some q) clock' = expenses (Some p) clock))"
proof -
  let ?P = "\<lambda>e. getMonth (date e) = Some m \<and> getFullYear (date e) = Some y"
  let ?a = "\<lambda>e. amount (expense_amount e)"
  let ?sel = "filter ?P (property_expenses p)"
  note total = expenses_steady [OF assms]
  have empty: "property_expenses p = [] \<Longrightarrow> expenses (Some p) clock = Some (Double 0)"
    by (simp add: expenses_def)
  have exact: "expenses (Some p) clock = Some (Double (\<Sum>e\<leftarrow>?sel. exact_value (?a e)))"
    if ints: "\<forall>e \<in> set ?sel. is_integer (?a e)"
      and bound: "(\<Sum>e\<leftarrow>?sel. \<bar>exact_value (?a e)\<bar>) < 2 ^ 53"
    unfolding total using foldl_num_add_integers [OF ints bound] by simp
  have order: "expenses (Some q) clock' = expenses (Some p) clock"
    if ints: "\<forall>e \<in> set ?sel. is_integer (?a e)"
      and bound: "(\<Sum>e\<leftarrow>?sel. \<bar>exact_value (?a e)\<bar>) < 2 ^ 53"
      and perm: "mset (property_expenses q) = mset (property_expenses p)"
      and steady: "\<forall>i < length (property_expenses q). clock' i = LocalDate y m"
  proof -
    let ?sel' = "filter ?P (property_expenses q)"
    from perm have m: "mset ?sel' = mset ?sel"
      by (metis mset_filter)
    then have "set ?sel' = set ?sel"
      by (rule mset_eq_setD)
    with ints have ints': "\<forall>e \<in> set ?sel'. is_integer (?a e)"
      by simp
    from m have abs: "(\<Sum>e\<leftarrow>?sel'. \<bar>exact_value (?a e)\<bar>) = (\<Sum>e\<leftarrow>?sel. \<bar>exact_value (?a e)\<bar>)"
      by (rule sum_list_mset_cong)
    from m have sums: "(\<Sum>e\<leftarrow>?sel'. exact_value (?a e)) = (\<Sum>e\<leftarrow>?sel. exact_value (?a e))"
      by (rule sum_list_mset_cong)
    from bound abs have bound': "(\<Sum>e\<leftarrow>?sel'. \<bar>exact_value (?a e)\<bar>) < 2 ^ 53"
      by simp
    have "expenses (Some q) clock' = Some (Double (\<Sum>e\<leftarrow>?sel'. exact_value (?a e)))"
      unfolding expenses_steady [OF steady]
      using foldl_num_add_integers [OF ints' bound'] by simp
    with sums exact [OF ints bound] show ?thesis by simp
  qed
  from total empty exact order show ?thesis by blast
qed

lemma house_totals:
  "\<forall>i < length (property_expenses house). april_clock i = LocalDate 2024 3"
  "\<forall>i < length (property_expenses house_swapped). april_clock i = LocalDate 2024 3"
  "mset (property_expenses house_swapped) = mset (property_expenses house)"
  "filter (\<lambda>e. getMonth (date e) = Some 3 \<and> getFullYear (date e) = Some 2024)
     (property_expenses house) = [april_100]"
  "is_integer (amount (expense_amount april_100))"
  "exact_value (amount (expense_amount april_100)) = 100"
  by (simp_all add: april_clock_def house_swapped_def house_def april_100_def march_50_def)

theorem expenses_current_month_witness:
  "length (property_expenses house) = 2 \<and> length (property_expenses house_swapped) = 2
   \<and> april_clock 0 = LocalDate 2024 3 \<and> april_clock 1 = LocalDate 2024 3
   \<and> mset (property_expenses house_swapped) = mset (property_expenses house)
   \<and> expenses (Some house) april_clock = Some (Double 100)
   \<and> expenses (Some house_swapped) april_clock = Some (Double 100)"
proof -
  note w = expenses_current_month [OF house_totals(1), of house_swapped april_clock]
  have ints: "\<forall>e \<in> set (filter (\<lambda>e. getMonth (date e) = Some 3 \<and>
        getFullYear (date e) = Some 2024) (property_expenses house)).
      is_integer (amount (expense_amount e))"
    by (simp add: house_totals)
  have bound: "(\<Sum>e\<leftarrow>filter (\<lambda>e. getMonth (date e) = Some 3 \<and>
        getFullYear (date e) = Some 2024) (property_expenses house).
      \<bar>exact_value (amount (expense_amount e))\<bar>) < 2 ^ 53"
    by (simp add: house_totals)
  from w ints bound have total: "expenses (Some house) april_clock =
      Some (Double (\<Sum>e\<leftarrow>filter (\<lambda>e. getMonth (date e) = Some 3 \<and>
        getFullYear (date e) = Some 2024) (property_expenses house).
          exact_value (amount (expense_amount e))))"
    by blast
  then have t: "expenses (Some house) april_clock = Some (Double 100)"
    by (simp add: house_totals)
  from w ints bound house_totals(2,3)
  have "expenses (Some house_swapped) april_clock = expenses (Some house) april_clock"
    by blast
  with t house_totals(3) show ?thesis
    by (simp add: april_clock_def house_swapped_def house_def)
qed

text \<open>
  C6. The chart series has exactly two entries, \<open>Revenue\<close> first and \<open>Expenses\<close> second;
  the first carries the revenue amount, or 0 without a revenue, the second the expense
  total, or 0 without one; the colours are the same two for all data.
\<close>

theorem chartData_series:
  "length (chartData r e) = 2
   \<and> map name (chartData r e) = [''Revenue'', ''Expenses'']
   \<and> map val (chartData (Some mo) (Some x)) = [amount mo, x]
   \<and> map val (chartData None (Some x)) = [Double 0, x]
   \<and> map val (chartData (Some mo) None) = [amount mo, Double 0]
   \<and> map val (chartData None None) = [Double 0, Double 0]
   \<and> map val (chartData (revenue None) (expenses None clock)) = [Double 0, Double 0]
   \<and> map fill (chartData r e) = [''#00B87C'', ''#FF5C93'']
   \<and> chartData (Some \<lparr>amount = Double 5000, currency = ''USD''\<rparr>) (Some (Double 1200)) =
       [\<lparr>name = ''Revenue'', val = Double 5000, fill = ''#00B87C''\<rparr>,
        \<lparr>name = ''Expenses'', val = Double 1200, fill = ''#FF5C93''\<rparr>]"
  by (simp add: chartData_def revenue_def expenses_def)

section \<open>Runs of the submit handlers\<close>

lemma onTenantAddSubmit_guarded:
  assumes "property_v s = Some p" "selectedTenant s = Some t" "selectRef s = Some el"
  shows "onTenantAddSubmit s =
     s\<lparr>trace := trace s @ [AddTenant (property_id p) (tenant_id t)],
       inflight := inflight s @ [AwaitAdd t]\<rparr>"
  using assms by (simp add: onTenantAddSubmit_def)

lemma onTenantRemoveSubmit_guarded:
  assumes "selectedTenant s = Some t" "id_param s = Some i" "i \<noteq> []"
  shows "onTenantRemoveSubmit s =
     s\<lparr>trace := trace s @ [RemoveTenant i (tenant_id t)],
       inflight := inflight s @ [AwaitRemove t]\<rparr>"
  using assms by (simp add: onTenantRemoveSubmit_def)

lemma add_run:
  assumes "property_v s = Some p" "selectedTenant s = Some t" "selectRef s = Some el"
    and "inflight s = []"
  shows "settle r (onTenantAddSubmit s) =
     s\<lparr>selectedTenant := None, selectRef := Some [], isConfirmAddModalOpen := False,
       trace := trace s @
         [AddTenant (property_id p) (tenant_id t),
          (case r of
             Resolved \<Rightarrow> ShowSuccess ''Tenant added'' (tenant_name t @ '' was added to the property.'')
           | Rejected e \<Rightarrow> ShowError ''Error''
               ''An error occured while trying to add the tenant to the property.''),
          SetSelectedTenant None, Mutate, SetSelectValue [], CloseConfirmAddModal]\<rparr>"
  using assms
  by (cases r)
     (simp_all add: onTenantAddSubmit_guarded [OF assms(1-3)] settle_def addSettled_def
        showSuccess_def showError_def setSelectedTenant_def mutate_def closeConfirmAddModal_def)

lemma remove_run:
  assumes "selectedTenant s = Some t" "id_param s = Some i" "i \<noteq> []"
    and "inflight s = []"
  shows "settle r (onTenantRemoveSubmit s) =
     s\<lparr>selectedTenant := None, isConfirmRemoveModalOpen := False,
       trace := trace s @
         [RemoveTenant i (tenant_id t),
          (case r of
             Resolved \<Rightarrow> ShowSuccess ''Tenant removed'' (tenant_name t @ '' was removed from the property'')
           | Rejected e \<Rightarrow> ShowError ''Error''
               ''An error occurred while trying to remove the tenant from the property''),
          SetSelectedTenant None, CloseConfirmRemoveModal, Mutate]\<rparr>"
  using assms
  by (cases r)
     (simp_all add: onTenantRemoveSubmit_guarded [OF assms(1-3)] settle_def removeSettled_def
        showSuccess_def showError_def setSelectedTenant_def mutate_def closeConfirmRemoveModal_def)

lemma ann_chosen_fields:
  "property_v ann_chosen = Some villa" "selectedTenant ann_chosen = Some ann"
  "selectRef ann_chosen = Some ''1''" "inflight ann_chosen = []"
  "id_param ann_chosen = Some ''7''" "trace ann_chosen = []" "thrown ann_chosen = []"
  "isConfirmAddModalOpen ann_chosen" "isConfirmRemoveModalOpen ann_chosen"
  by (simp_all add: ann_chosen_def)

text \<open>
  Settlement of a pending remove call always ends with the selection cleared and the
  modal closed; settlement of a pending add call does so when the select element is
  still on the page, and otherwise throws with the modal left as it was.
\<close>

lemma settle_remove_cleanup:
  assumes "inflight s = AwaitRemove t # ks"
  shows "selectedTenant (settle r s) = None"
    and "\<not> isConfirmRemoveModalOpen (settle r s)"
    and "thrown (settle r s) = thrown s"
    and "inflight (settle r s) = ks"
  using assms
  by (cases r; simp add: settle_def removeSettled_def showSuccess_def showError_def
        setSelectedTenant_def mutate_def closeConfirmRemoveModal_def)+

lemma settle_add_cleanup:
  assumes "inflight s = AwaitAdd t # ks"
  shows "selectedTenant (settle r s) = None"
    and "inflight (settle r s) = ks"
    and "selectRef s \<noteq> None \<Longrightarrow> \<not> isConfirmAddModalOpen (settle r s)"
    and "selectRef s \<noteq> None \<Longrightarrow> thrown (settle r s) = thrown s"
    and "selectRef s = None \<Longrightarrow>
           isConfirmAddModalOpen (settle r s) = isConfirmAddModalOpen s"
    and "selectRef s = None \<Longrightarrow> thrown (settle r s) = thrown s @ [TypeError]"
  using assms
  by (cases r; cases "selectRef s";
      simp add: settle_def addSettled_def showSuccess_def showError_def
        setSelectedTenant_def mutate_def closeConfirmAddModal_def)+

text \<open>
  C2. The cleanup of the add handler is not unconditional. With Ann chosen for Villa,
  the add call is made and, while it is pending, the property fetch fails and the
  select leaves the page. When the call then settles, resolved or rejected, the handler
  clears the selection and asks for the refetch, throws a \<open>TypeError\<close> at
  \<open>selectRef.current.value = ''\<close> and never closes the modal. The remove handler in the
  same situation closes its modal and throws nothing.
\<close>

theorem add_cleanup_skipped:
  "workflowState (propertyFetchFails (onTenantAddSubmit ann_chosen)) = Submitting
   \<and> trace (settle Resolved (propertyFetchFails (onTenantAddSubmit ann_chosen))) =
       [AddTenant 7 1, ShowSuccess ''Tenant added'' ''Ann was added to the property.'',
        SetSelectedTenant None, Mutate]
   \<and> trace (settle (Rejected ''500'') (propertyFetchFails (onTenantAddSubmit ann_chosen))) =
       [AddTenant 7 1,
        ShowError ''Error'' ''An error occured while trying to add the tenant to the property.'',
        SetSelectedTenant None, Mutate]
   \<and> isConfirmAddModalOpen
        (settle Resolved (propertyFetchFails (onTenantAddSubmit ann_chosen)))
   \<and> isConfirmAddModalOpen
        (settle (Rejected ''500'') (propertyFetchFails (onTenantAddSubmit ann_chosen)))
   \<and> thrown (settle Resolved (propertyFetchFails (onTenantAddSubmit ann_chosen))) =
       [TypeError]
   \<and> thrown (settle (Rejected ''500'') (propertyFetchFails (onTenantAddSubmit ann_chosen))) =
       [TypeError]
   \<and> trace (settle Resolved (propertyFetchFails (onTenantRemoveSubmit ann_chosen))) =
       [RemoveTenant ''7'' 1, ShowSuccess ''Tenant removed'' ''Ann was removed from the property'',
        SetSelectedTenant None, CloseConfirmRemoveModal, Mutate]
   \<and> \<not> isConfirmRemoveModalOpen
        (settle Resolved (propertyFetchFails (onTenantRemoveSubmit ann_chosen)))
   \<and> thrown (settle Resolved (propertyFetchFails (onTenantRemoveSubmit ann_chosen))) = []"
  by (simp add: onTenantAddSubmit_def onTenantRemoveSubmit_def propertyFetchFails_def
      settle_def addSettled_def removeSettled_def showSuccess_def showError_def
      setSelectedTenant_def mutate_def closeConfirmRemoveModal_def workflowState_def
      ann_chosen_def villa_def ann_def)

text \<open>
  A second invocation while the first call is pending is not ignored: with Ann chosen
  for Villa, the state after the first invocation is \<open>Submitting\<close>, and invoking the
  handler again changes it and makes the same API call a second time.
\<close>

theorem second_submit_counterexample:
  "workflowState (onTenantAddSubmit ann_chosen) = Submitting
   \<and> onTenantAddSubmit (onTenantAddSubmit ann_chosen) \<noteq> onTenantAddSubmit ann_chosen
   \<and> trace (onTenantAddSubmit (onTenantAddSubmit ann_chosen)) = [AddTenant 7 1, AddTenant 7 1]
   \<and> workflowState (onTenantRemoveSubmit ann_chosen) = Submitting
   \<and> onTenantRemoveSubmit (onTenantRemoveSubmit ann_chosen) \<noteq> onTenantRemoveSubmit ann_chosen
   \<and> trace (onTenantRemoveSubmit (onTenantRemoveSubmit ann_chosen)) =
       [RemoveTenant ''7'' 1, RemoveTenant ''7'' 1]"
  by (simp add: onTenantAddSubmit_def onTenantRemoveSubmit_def workflowState_def
      ann_chosen_def villa_def ann_def)

text \<open>
  C3 (amended). The handlers have no guard on a pending call. In every page state in
  which a handler's input guard holds, with or without calls already pending, an
  invocation starts an API call and leaves the workflow \<open>Submitting\<close>; the guard still
  holds right after an invocation, so a second invocation before the first call
  settles starts a second API call with the same arguments.
\<close>

theorem second_submit_not_guarded:
  "(property_v s = Some p \<and> selectedTenant s = Some t \<and> selectRef s = Some el \<longrightarrow>
      trace (onTenantAddSubmit s) = trace s @ [AddTenant (property_id p) (tenant_id t)]
      \<and> inflight (onTenantAddSubmit s) = inflight s @ [AwaitAdd t]
      \<and> workflowState (onTenantAddSubmit s) = Submitting
      \<and> trace (onTenantAddSubmit (onTenantAddSubmit s)) =
          trace s @ [AddTenant (property_id p) (tenant_id t),
                     AddTenant (property_id p) (tenant_id t)]
      \<and> inflight (onTenantAddSubmit (onTenantAddSubmit s)) =
          inflight s @ [AwaitAdd t, AwaitAdd t])
   \<and> (selectedTenant s = Some t \<and> id_param s = Some i \<and> i \<noteq> [] \<longrightarrow>
      trace (onTenantRemoveSubmit s) = trace s @ [RemoveTenant i (tenant_id t)]
      \<and> inflight (onTenantRemoveSubmit s) = inflight s @ [AwaitRemove t]
      \<and> workflowState (onTenantRemoveSubmit s) = Submitting
      \<and> trace (onTenantRemoveSubmit (onTenantRemoveSubmit s)) =
          trace s @ [RemoveTenant i (tenant_id t), RemoveTenant i (tenant_id t)]
      \<and> inflight (onTenantRemoveSubmit (onTenantRemoveSubmit s)) =
          inflight s @ [AwaitRemove t, AwaitRemove t])"
proof (intro conjI impI)
  assume g: "property_v s = Some p \<and> selectedTenant s = Some t \<and> selectRef s = Some el"
  then have first: "onTenantAddSubmit s =
     s\<lparr>trace := trace s @ [AddTenant (property_id p) (tenant_id t)],
       inflight := inflight s @ [AwaitAdd t]\<rparr>"
    by (simp add: onTenantAddSubmit_guarded)
  from g have second: "onTenantAddSubmit (onTenantAddSubmit s) =
     s\<lparr>trace := trace s @ [AddTenant (property_id p) (tenant_id t),
                           AddTenant (property_id p) (tenant_id t)],
       inflight := inflight s @ [AwaitAdd t, AwaitAdd t]\<rparr>"
    unfolding first by (simp add: onTenantAddSubmit_def)
  from first show "trace (onTenantAddSubmit s) =
      trace s @ [AddTenant (property_id p) (tenant_id t)]" by simp
  from first show "inflight (onTenantAddSubmit s) = inflight s @ [AwaitAdd t]" by simp
  from first show "workflowState (onTenantAddSubmit s) = Submitting"
    by (simp add: workflowState_def)
  from second show "trace (onTenantAddSubmit (onTenantAddSubmit s)) =
          trace s @ [AddTenant (property_id p) (tenant_id t),
                     AddTenant (property_id p) (tenant_id t)]" by simp
  from second show "inflight (onTenantAddSubmit (onTenantAddSubmit s)) =
          inflight s @ [AwaitAdd t, AwaitAdd t]" by simp
next
  assume g: "selectedTenant s = Some t \<and> id_param s = Some i \<and> i \<noteq> []"
  then have first: "onTenantRemoveSubmit s =
     s\<lparr>trace := trace s @ [RemoveTenant i (tenant_id t)],
       inflight := inflight s @ [AwaitRemove t]\<rparr>"
    by (simp add: onTenantRemoveSubmit_guarded)
  from g have second: "onTenantRemoveSubmit (onTenantRemoveSubmit s) =
     s\<lparr>trace := trace s @ [RemoveTenant i (tenant_id t), RemoveTenant i (tenant_id t)],
       inflight := inflight s @ [AwaitRemove t, AwaitRemove t]\<rparr>"
    unfolding first by (simp add: onTenantRemoveSubmit_def)
  from first show "trace (onTenantRemoveSubmit s) =
      trace s @ [RemoveTenant i (tenant_id t)]" by simp
  from first show "inflight (onTenantRemoveSubmit s) = inflight s @ [AwaitRemove t]" by simp
  from first show "workflowState (onTenantRemoveSubmit s) = Submitting"
    by (simp add: workflowState_def)
  from second show "trace (onTenantRemoveSubmit (onTenantRemoveSubmit s)) =
          trace s @ [RemoveTenant i (tenant_id t), RemoveTenant i (tenant_id t)]" by simp
  from second show "inflight (onTenantRemoveSubmit (onTenantRemoveSubmit s)) =
          inflight s @ [AwaitRemove t, AwaitRemove t]" by simp
qed

theorem second_submit_not_guarded_witness:
  "property_v (onTenantAddSubmit ann_chosen) = Some villa
   \<and> selectedTenant (onTenantAddSubmit ann_chosen) = Some ann
   \<and> selectRef (onTenantAddSubmit ann_chosen) = Some ''1''
   \<and> id_param (onTenantAddSubmit ann_chosen) = Some ''7''
   \<and> inflight (onTenantAddSubmit ann_chosen) = [AwaitAdd ann]
   \<and> inflight (onTenantAddSubmit (onTenantAddSubmit ann_chosen)) = [AwaitAdd ann, AwaitAdd ann]
   \<and> inflight (onTenantRemoveSubmit (onTenantAddSubmit ann_chosen)) =
       [AwaitAdd ann, AwaitRemove ann]"
proof -
  have st: "onTenantAddSubmit ann_chosen =
      ann_chosen\<lparr>trace := [AddTenant (property_id villa) (tenant_id ann)],
        inflight := [AwaitAdd ann]\<rparr>"
    by (simp add: onTenantAddSubmit_guarded [of ann_chosen villa ann "''1''"] ann_chosen_fields)
  have f: "property_v (onTenantAddSubmit ann_chosen) = Some villa"
    "selectedTenant (onTenantAddSubmit ann_chosen) = Some ann"
    "selectRef (onTenantAddSubmit ann_chosen) = Some ''1''"
    "id_param (onTenantAddSubmit ann_chosen) = Some ''7''"
    "inflight (onTenantAddSubmit ann_chosen) = [AwaitAdd ann]"
    by (simp_all add: st ann_chosen_fields)
  from second_submit_not_guarded [of "onTenantAddSubmit ann_chosen" villa ann "''1''" "''7''"] f
  have "inflight (onTenantAddSubmit (onTenantAddSubmit ann_chosen)) = [AwaitAdd ann, AwaitAdd ann]"
    "inflight (onTenantRemoveSubmit (onTenantAddSubmit ann_chosen)) =
       [AwaitAdd ann, AwaitRemove ann]"
    by simp_all
  with f show ?thesis by simp
qed

text \<open>
  C4. The add handler does not follow the order API call, notification, selection
  reset, modal close, refetch: in the run with Ann chosen for Villa it asks for the
  refetch before it closes the modal. The remove handler, run from the same page,
  closes the modal first and asks for the refetch last.
\<close>

theorem add_refetch_before_close:
  "trace (settle Resolved (onTenantAddSubmit ann_chosen)) =
     [AddTenant 7 1, ShowSuccess ''Tenant added'' ''Ann was added to the property.'',
      SetSelectedTenant None, Mutate, SetSelectValue [], CloseConfirmAddModal]
   \<and> occurs_before Mutate CloseConfirmAddModal
        (trace (settle Resolved (onTenantAddSubmit ann_chosen)))
   \<and> \<not> occurs_before CloseConfirmAddModal Mutate
        (trace (settle Resolved (onTenantAddSubmit ann_chosen)))
   \<and> trace (settle Resolved (onTenantRemoveSubmit ann_chosen)) =
     [RemoveTenant ''7'' 1, ShowSuccess ''Tenant removed'' ''Ann was removed from the property'',
      SetSelectedTenant None, CloseConfirmRemoveModal, Mutate]
   \<and> occurs_before CloseConfirmRemoveModal Mutate
        (trace (settle Resolved (onTenantRemoveSubmit ann_chosen)))"
  by (simp add: add_run [of ann_chosen villa ann "''1''"] remove_run [of ann_chosen ann "''7''"]
      ann_chosen_fields villa_def ann_def)




text \<open>
  C8. Without a property or without a selected tenant \<open>onTenantAddSubmit\<close> returns the
  page state as it was, and so does \<open>onTenantRemoveSubmit\<close> without a selected tenant or
  without a route id: no call is recorded in the trace, no handler is left pending,
  nothing is thrown and no field changes.
\<close>

theorem submit_without_inputs:
  "(property_v s = None \<or> selectedTenant s = None \<longrightarrow> onTenantAddSubmit s = s)
   \<and> (selectedTenant s = None \<or> \<not> truthy_str (id_param s) \<longrightarrow> onTenantRemoveSubmit s = s)"
  by (auto simp: onTenantAddSubmit_def onTenantRemoveSubmit_def
      split: option.splits)

theorem submit_without_inputs_witness:
  "selectedTenant (ann_chosen\<lparr>selectedTenant := None\<rparr>) = None
   \<and> onTenantAddSubmit (ann_chosen\<lparr>selectedTenant := None\<rparr>) =
       ann_chosen\<lparr>selectedTenant := None\<rparr>
   \<and> \<not> truthy_str (id_param (ann_chosen\<lparr>id_param := None\<rparr>))
   \<and> onTenantRemoveSubmit (ann_chosen\<lparr>id_param := None\<rparr>) = ann_chosen\<lparr>id_param := None\<rparr>
   \<and> trace (onTenantAddSubmit (ann_chosen\<lparr>property_v := None\<rparr>)) = []
   \<and> inflight (onTenantAddSubmit (ann_chosen\<lparr>property_v := None\<rparr>)) = []
   \<and> thrown (onTenantAddSubmit (ann_chosen\<lparr>property_v := None\<rparr>)) = []"
  using submit_without_inputs [of "ann_chosen\<lparr>selectedTenant := None\<rparr>"]
    submit_without_inputs [of "ann_chosen\<lparr>id_param := None\<rparr>"]
    submit_without_inputs [of "ann_chosen\<lparr>property_v := None\<rparr>"]
  by (simp add: ann_chosen_fields)

section \<open>Pre-populating the edit form\<close>

lemma splitBy_first:
  "at_index (splitBy P str) 0 = Some (takeWhile (\<lambda>c. \<not> P c) str)"
  by (induction str) (auto split: list.splits)

lemma splitBy_no_cut:
  "\<forall>c \<in> set str. \<not> P c \<Longrightarrow> splitBy P str = [str]"
  by (induction str) auto

lemma splitBy_nonempty: "splitBy P str \<noteq> []"
  by (induction str) (auto split: list.splits)

lemma splitBy_second:
  "at_index (splitBy P str) (Suc 0) =
     (if \<exists>c \<in> set str. P c
      then Some (takeWhile (\<lambda>c. \<not> P c) (tl (dropWhile (\<lambda>c. \<not> P c) str)))
      else None)"
proof (induction str)
  case Nil
  show ?case by simp
next
  case (Cons c cs)
  show ?case
  proof (cases "P c")
    case True
    then show ?thesis by (simp add: splitBy_first)
  next
    case False
    with Cons show ?thesis
      by (cases "splitBy P cs") (auto simp: splitBy_nonempty)
  qed
qed

lemma resetValues_fields:
  "first_name (resetValues t) = Some (takeWhile (\<lambda>c. c \<noteq> CHR '' '') (tenant_name t))"
  "last_name (resetValues t) =
     (if CHR '' '' \<in> set (tenant_name t)
      then Some (takeWhile (\<lambda>c. c \<noteq> CHR '' '')
                  (tl (dropWhile (\<lambda>c. c \<noteq> CHR '' '') (tenant_name t))))
      else None)"
  by (simp_all add: resetValues_def split_str_def splitBy_first splitBy_second)

lemma takeWhile_stop:
  "x \<notin> set a \<Longrightarrow> takeWhile (\<lambda>c. c \<noteq> x) (a @ x # r) = a"
  by (induction a) auto

lemma takeWhile_all:
  "x \<notin> set a \<Longrightarrow> takeWhile (\<lambda>c. c \<noteq> x) a = a"
  by (induction a) auto

lemma dropWhile_stop:
  "x \<notin> set a \<Longrightarrow> dropWhile (\<lambda>c. c \<noteq> x) (a @ x # r) = x # r"
  by (induction a) auto

text \<open>
  The pieces of \<open>split(' ')\<close> are not the whitespace-delimited tokens: two adjacent
  spaces give an empty last name, and a tab does not separate at all.
\<close>

theorem split_name_counterexample:
  "spec_tokens ''Jane  Doe'' = [''Jane'', ''Doe'']
   \<and> resetValues \<lparr>tenant_id = 1, tenant_name = ''Jane  Doe''\<rparr> =
       \<lparr>first_name = Some ''Jane'', last_name = Some []\<rparr>
   \<and> spec_tokens (''Jane'' @ [CHR 0x09] @ ''Doe'') = [''Jane'', ''Doe'']
   \<and> resetValues \<lparr>tenant_id = 1, tenant_name = ''Jane'' @ [CHR 0x09] @ ''Doe''\<rparr> =
       \<lparr>first_name = Some (''Jane'' @ [CHR 0x09] @ ''Doe''), last_name = None\<rparr>"
  by (simp add: spec_tokens_def isWhitespace_def resetValues_def split_str_def)

text \<open>
  C9 (amended). The form is pre-populated from the first two pieces of the name split
  at the space character: \<open>first_name\<close> is the text before the first space, \<open>last_name\<close> the
  text between the first and the second space, absent when the name has no space.
  For a name \<open>a b\<close> or \<open>a b rest\<close> whose first two tokens \<open>a\<close> and \<open>b\<close> hold no space and are
  followed by single spaces, \<open>first_name\<close> is \<open>a\<close> and \<open>last_name\<close> is \<open>b\<close>; the name
  \<open>Jane Doe Smith\<close> gives \<open>Jane\<close> and \<open>Doe\<close>.
\<close>

theorem resetValues_split:
  "first_name (resetValues t) = Some (takeWhile (\<lambda>c. c \<noteq> CHR '' '') (tenant_name t))
   \<and> last_name (resetValues t) =
       (if CHR '' '' \<in> set (tenant_name t)
        then Some (takeWhile (\<lambda>c. c \<noteq> CHR '' '')
                    (tl (dropWhile (\<lambda>c. c \<noteq> CHR '' '') (tenant_name t))))
        else None)
   \<and> (CHR '' '' \<notin> set a \<and> CHR '' '' \<notin> set b \<and>
       (tenant_name t = a @ '' '' @ b \<or> tenant_name t = a @ '' '' @ b @ '' '' @ rest) \<longrightarrow>
         resetValues t = \<lparr>first_name = Some a, last_name = Some b\<rparr>)
   \<and> resetValues \<lparr>tenant_id = n, tenant_name = ''Jane Doe Smith''\<rparr> =
       \<lparr>first_name = Some ''Jane'', last_name = Some ''Doe''\<rparr>"
proof (intro conjI impI)
  show "first_name (resetValues t) = Some (takeWhile (\<lambda>c. c \<noteq> CHR '' '') (tenant_name t))"
    by (rule resetValues_fields)
  show "last_name (resetValues t) =
       (if CHR '' '' \<in> set (tenant_name t)
        then Some (takeWhile (\<lambda>c. c \<noteq> CHR '' '')
                    (tl (dropWhile (\<lambda>c. c \<noteq> CHR '' '') (tenant_name t))))
        else None)"
    by (rule resetValues_fields)
  show "resetValues \<lparr>tenant_id = n, tenant_name = ''Jane Doe Smith''\<rparr> =
       \<lparr>first_name = Some ''Jane'', last_name = Some ''Doe''\<rparr>"
    by (simp add: resetValues_def split_str_def)
next
  assume h: "CHR '' '' \<notin> set a \<and> CHR '' '' \<notin> set b \<and>
       (tenant_name t = a @ '' '' @ b \<or> tenant_name t = a @ '' '' @ b @ '' '' @ rest)"
  then have na: "CHR '' '' \<notin> set a" and nb: "CHR '' '' \<notin> set b" by simp_all
  from h obtain r where nm: "tenant_name t = a @ CHR '' '' # b @ r"
    and r: "r = [] \<or> r = CHR '' '' # rest" by auto
  have f: "first_name (resetValues t) = Some a"
    by (simp add: resetValues_fields nm takeWhile_stop [OF na])
  have "takeWhile (\<lambda>c. c \<noteq> CHR '' '') (b @ r) = b"
    using r nb by (auto simp: takeWhile_stop takeWhile_all)
  then have l: "last_name (resetValues t) = Some b"
    by (simp add: resetValues_fields nm dropWhile_stop [OF na])
  from f l show "resetValues t = \<lparr>first_name = Some a, last_name = Some b\<rparr>"
    by (cases "resetValues t") simp
qed

theorem resetValues_split_witness:
  "CHR '' '' \<notin> set ''Jane'' \<and> CHR '' '' \<notin> set ''Doe''
   \<and> tenant_name \<lparr>tenant_id = 4, tenant_name = ''Jane Doe Smith Jr''\<rparr> =
       ''Jane'' @ '' '' @ ''Doe'' @ '' '' @ ''Smith Jr''
   \<and> resetValues \<lparr>tenant_id = 4, tenant_name = ''Jane Doe Smith Jr''\<rparr> =
       \<lparr>first_name = Some ''Jane'', last_name = Some ''Doe''\<rparr>"
  using resetValues_split [of "\<lparr>tenant_id = 4, tenant_name = ''Jane Doe Smith Jr''\<rparr>"
      "''Jane''" "''Doe''" "''Smith Jr''"]
  by simp

text \<open>
  C10. For a tenant whose name holds no space character, the form is pre-populated
  with the whole name as \<open>first_name\<close> and no \<open>last_name\<close>; the form is then invalid and
  \<open>handleSubmit\<close> does not call \<open>onSubmit\<close>, and with any value \<open>v\<close> put into the last-name
  field it calls \<open>onSubmit\<close> exactly when \<open>v\<close> is a non-empty string (and the name is
  not empty).
\<close>

theorem single_token_name:
  assumes "CHR '' '' \<notin> set (tenant_name t)"
  shows "prepopulate (Some t) form = \<lparr>first_name = Some (tenant_name t), last_name = None\<rparr>
   \<and> \<not> isValid (prepopulate (Some t) form)
   \<and> handleSubmit (Some t) (prepopulate (Some t) form) = None
   \<and> (handleSubmit (Some t) ((prepopulate (Some t) form)\<lparr>last_name := v\<rparr>) \<noteq> None
        \<longleftrightarrow> tenant_name t \<noteq> [] \<and> (\<exists>l. v = Some l \<and> l \<noteq> []))"
proof -
  have p: "prepopulate (Some t) form = \<lparr>first_name = Some (tenant_name t), last_name = None\<rparr>"
  proof -
    from assms have "\<forall>c \<in> set (tenant_name t). \<not> c = CHR '' ''" by auto
    then have "splitBy (\<lambda>c. c = CHR '' '') (tenant_name t) = [tenant_name t]"
      by (rule splitBy_no_cut)
    then show ?thesis
      by (simp add: prepopulate_def resetValues_def split_str_def)
  qed
  show ?thesis
    unfolding p by (cases v) (auto simp: isValid_def handleSubmit_def)
qed

theorem single_token_name_witness:
  "CHR '' '' \<notin> set (tenant_name \<lparr>tenant_id = 5, tenant_name = ''Cher''\<rparr>)
   \<and> prepopulate (Some \<lparr>tenant_id = 5, tenant_name = ''Cher''\<rparr>) defaultValues =
       \<lparr>first_name = Some ''Cher'', last_name = None\<rparr>
   \<and> handleSubmit (Some \<lparr>tenant_id = 5, tenant_name = ''Cher''\<rparr>)
       (prepopulate (Some \<lparr>tenant_id = 5, tenant_name = ''Cher''\<rparr>) defaultValues) = None"
proof -
  have h: "CHR '' '' \<notin> set (tenant_name \<lparr>tenant_id = 5, tenant_name = ''Cher''\<rparr>)"
    by simp
  note w = single_token_name [OF h, of defaultValues None]
  have a: "prepopulate (Some \<lparr>tenant_id = 5, tenant_name = ''Cher''\<rparr>) defaultValues =
       \<lparr>first_name = Some ''Cher'', last_name = None\<rparr>"
    using w [THEN conjunct1] by simp
  have b: "handleSubmit (Some \<lparr>tenant_id = 5, tenant_name = ''Cher''\<rparr>)
       (prepopulate (Some \<lparr>tenant_id = 5, tenant_name = ''Cher''\<rparr>) defaultValues) = None"
    using w [THEN conjunct2, THEN conjunct2, THEN conjunct1] .
  from h a b show ?thesis by blast
qed

end
